theory Spec2Isabelle
  imports Main "HOL-Library.AList"
begin

section \<open>JavaScript values\<close>

text \<open>
  The values that the adapter in \<^verbatim>\<open>src/index.ts\<close> builds, receives and serialises.
  A JavaScript object is an association list in insertion order, which is the order
  \<^verbatim>\<open>JSON.stringify\<close> walks. Strings are \<^typ>\<open>string\<close>, one \<^typ>\<open>char\<close> per
  character. A number is modelled by \<^typ>\<open>int\<close>: the numbers of this program are
  byte counts (\<^verbatim>\<open>max_file_size\<close>), and the only operations on them are the
  truthiness test (false exactly at zero) and decimal printing, which is the printing of
  JavaScript for integers below \<open>10\<^sup>2\<^sup>1\<close> in magnitude.
\<close>

datatype json =
    JNull
  | JBool bool
  | JNumber int
  | JString string
  | JArray "json list"
  | JObject "(string \<times> json) list"

text \<open>
  What a \<^verbatim>\<open>throw\<close> can carry:
  \<^item> an \<^verbatim>\<open>Error\<close> instance, with the value of its \<^verbatim>\<open>message\<close> property, which
    is a string for the errors the runtime creates but may hold any value that JSON can
    hold or be \<^verbatim>\<open>undefined\<close> (\<open>None\<close>);
  \<^item> \<^verbatim>\<open>undefined\<close>;
  \<^item> a plain value;
  \<^item> an object with a conversion of its own, given by what \<^verbatim>\<open>String\<close> does on it:
    it returns a string, or it throws. An object without any conversion, such as
    \<^verbatim>\<open>Object.create(null)\<close>, makes \<^verbatim>\<open>String\<close> throw a
    \<^verbatim>\<open>TypeError\<close>.
\<close>

datatype thrown =
    ErrorInstance "json option"
  | ThrownUndefined
  | ThrownValue json
  | ThrownObject "thrown + string"

definition cannot_convert_TypeError :: thrown where
  "cannot_convert_TypeError =
     ErrorInstance (Some (JString ''Cannot convert object to primitive value''))"

subsection \<open>Number and string conversion\<close>

definition digit_char :: "nat \<Rightarrow> char" where
  "digit_char d = char_of (48 + d)"

function decimal :: "nat \<Rightarrow> string" where
  "decimal n = (if n < 10 then [digit_char n] else decimal (n div 10) @ [digit_char (n mod 10)])"
  by pat_completeness auto
termination
  by (relation "measure (\<lambda>n. n)") auto

definition number_to_string :: "int \<Rightarrow> string" where
  "number_to_string i = (if i < 0 then CHR ''-'' # decimal (nat (- i)) else decimal (nat i))"

fun join :: "string \<Rightarrow> string list \<Rightarrow> string" where
  "join sep [] = []"
| "join sep [x] = x"
| "join sep (x # y # ys) = x @ sep @ join sep (y # ys)"

text \<open>\<^verbatim>\<open>String(v)\<close> on a plain value. An array prints its elements joined by commas,
  \<^verbatim>\<open>null\<close> elements as the empty string; a plain object prints as
  \<^verbatim>\<open>[object Object]\<close>.\<close>

fun js_String :: "json \<Rightarrow> string"
  and js_String_elements :: "json list \<Rightarrow> string list" where
  "js_String JNull = ''null''"
| "js_String (JBool b) = (if b then ''true'' else ''false'')"
| "js_String (JNumber i) = number_to_string i"
| "js_String (JString s) = s"
| "js_String (JArray xs) = join '','' (js_String_elements xs)"
| "js_String (JObject kvs) = ''[object Object]''"
| "js_String_elements [] = []"
| "js_String_elements (x # xs) = (if x = JNull then [] else js_String x) # js_String_elements xs"

subsection \<open>\<^verbatim>\<open>JSON.stringify(value, null, 2)\<close>\<close>

definition hex_char :: "nat \<Rightarrow> char" where
  "hex_char d = (if d < 10 then char_of (48 + d) else char_of (87 + d))"

text \<open>\<^verbatim>\<open>QuoteJSONString\<close>: the two-character escapes, a four-digit hexadecimal escape for the
  other control characters, every other character as it is.\<close>

definition escape_char :: "char \<Rightarrow> string" where
  "escape_char c =
     (if c = CHR 0x08 then [CHR 0x5C, CHR ''b'']
      else if c = CHR 0x09 then [CHR 0x5C, CHR ''t'']
      else if c = CHR 0x0A then [CHR 0x5C, CHR ''n'']
      else if c = CHR 0x0C then [CHR 0x5C, CHR ''f'']
      else if c = CHR 0x0D then [CHR 0x5C, CHR ''r'']
      else if c = CHR 0x22 then [CHR 0x5C, CHR 0x22]
      else if c = CHR 0x5C then [CHR 0x5C, CHR 0x5C]
      else if (of_char c :: nat) < 32
        then [CHR 0x5C, CHR ''u'', CHR ''0'', CHR ''0'']
             @ [hex_char ((of_char c :: nat) div 16), hex_char ((of_char c :: nat) mod 16)]
      else [c])"

definition quote :: "string \<Rightarrow> string" where
  "quote s = [CHR 0x22] @ concat (map escape_char s) @ [CHR 0x22]"

definition newline :: string where
  "newline = [CHR 0x0A]"

text \<open>\<^verbatim>\<open>SerializeJSONProperty\<close> with gap of two spaces; \<open>ind\<close> is the current
  indentation. Empty arrays and objects print without a line break.\<close>

fun serialize :: "string \<Rightarrow> json \<Rightarrow> string"
  and serialize_elements :: "string \<Rightarrow> json list \<Rightarrow> string list"
  and serialize_members :: "string \<Rightarrow> (string \<times> json) list \<Rightarrow> string list" where
  "serialize ind JNull = ''null''"
| "serialize ind (JBool b) = (if b then ''true'' else ''false'')"
| "serialize ind (JNumber i) = number_to_string i"
| "serialize ind (JString s) = quote s"
| "serialize ind (JArray xs) =
     (if xs = [] then ''[]''
      else ''['' @ newline @ (ind @ ''  '')
           @ join ('','' @ newline @ (ind @ ''  '')) (serialize_elements (ind @ ''  '') xs)
           @ newline @ ind @ '']'')"
| "serialize ind (JObject kvs) =
     (if kvs = [] then ''{}''
      else ''{'' @ newline @ (ind @ ''  '')
           @ join ('','' @ newline @ (ind @ ''  '')) (serialize_members (ind @ ''  '') kvs)
           @ newline @ ind @ ''}'')"
| "serialize_elements ind [] = []"
| "serialize_elements ind (x # xs) = serialize ind x # serialize_elements ind xs"
| "serialize_members ind [] = []"
| "serialize_members ind ((k, v) # kvs) =
     (quote k @ '': '' @ serialize ind v) # serialize_members ind kvs"

definition JSON_stringify :: "json \<Rightarrow> string" where
  "JSON_stringify v = serialize [] v"

section \<open>The collaborator and the environment of a call\<close>

text \<open>
  \<^verbatim>\<open>ingest(repo_url, options)\<close> of the ingestion library is opaque: it either
  returns the triple \<^verbatim>\<open>[summary, tree, content]\<close> or throws. The option record
  it receives is a JavaScript object. The environment also holds what
  \<^verbatim>\<open>new Date().toISOString()\<close> returns when a reply is built.
\<close>

type_synonym options = "(string \<times> json) list"

type_synonym ingest_result = "string \<times> string \<times> string"

record env =
  ingest :: "string \<Rightarrow> options \<Rightarrow> thrown + ingest_result"
  now_toISOString :: string

text \<open>The value a handler returns: \<^verbatim>\<open>{ content: [{ type: "text", text }] }\<close>.\<close>

datatype content_item = TextItem string

datatype tool_result = ToolResult "content_item list"

text \<open>One execution of a handler: the promise it returns (rejected with a thrown value,
  or resolved with a result) and the calls it made to the collaborator, in order.\<close>

record run =
  outcome :: "thrown + tool_result"
  ingest_calls :: "(string \<times> options) list"

definition try_catch :: "thrown + 'a \<Rightarrow> (thrown \<Rightarrow> thrown + 'a) \<Rightarrow> thrown + 'a" where
  "try_catch body handler = (case body of Inl error \<Rightarrow> handler error | Inr v \<Rightarrow> Inr v)"

text \<open>\<^verbatim>\<open>error instanceof Error ? error.message : String(error)\<close>, evaluated inside
  the catch block: it yields the value that the reply object gets under
  \<^verbatim>\<open>message\<close> (\<open>None\<close> is \<^verbatim>\<open>undefined\<close>), or it throws what the
  conversion by \<^verbatim>\<open>String\<close> throws.\<close>

definition error_message :: "thrown \<Rightarrow> thrown + json option" where
  "error_message error =
     (case error of
        ErrorInstance message \<Rightarrow> Inr message
      | ThrownUndefined \<Rightarrow> Inr (Some (JString ''undefined''))
      | ThrownValue v \<Rightarrow> Inr (Some (JString (js_String v)))
      | ThrownObject conversion \<Rightarrow>
          (case conversion of Inl e \<Rightarrow> Inl e | Inr s \<Rightarrow> Inr (Some (JString s))))"

text \<open>An object literal handed to \<^verbatim>\<open>JSON.stringify\<close>: a property whose value is
  \<^verbatim>\<open>undefined\<close> is left out of the text, the others are written in order.\<close>

fun defined_properties :: "(string \<times> json option) list \<Rightarrow> (string \<times> json) list" where
  "defined_properties [] = []"
| "defined_properties ((k, None) # kvs) = defined_properties kvs"
| "defined_properties ((k, Some v) # kvs) = (k, v) # defined_properties kvs"

definition text_result :: "json \<Rightarrow> tool_result" where
  "text_result v = ToolResult [TextItem (JSON_stringify v)]"

definition string_array :: "string list \<Rightarrow> json" where
  "string_array ps = JArray (map JString ps)"

section \<open>The four tools\<close>

subsection \<open>\<^verbatim>\<open>ingest_github_repo\<close>\<close>

text \<open>The option object is built key by key; each guard is a truthiness test. An array is
  truthy whenever it is defined, a number when it is defined and not zero.\<close>

definition ingest_github_repo_options ::
  "string list option \<Rightarrow> string list option \<Rightarrow> int option \<Rightarrow> options" where
  "ingest_github_repo_options include_patterns exclude_patterns max_file_size =
     (let options = [];
          options = (case include_patterns of
                       Some ps \<Rightarrow> AList.update ''include_patterns'' (string_array ps) options
                     | None \<Rightarrow> options);
          options = (case exclude_patterns of
                       Some ps \<Rightarrow> AList.update ''exclude_patterns'' (string_array ps) options
                     | None \<Rightarrow> options);
          options = (case max_file_size of
                       Some n \<Rightarrow> if n \<noteq> 0 then AList.update ''max_file_size'' (JNumber n) options
                                 else options
                     | None \<Rightarrow> options)
      in options)"

definition ingest_github_repo_success :: "env \<Rightarrow> string \<Rightarrow> options \<Rightarrow> ingest_result \<Rightarrow> json" where
  "ingest_github_repo_success env repo_url options r =
     (case r of (summary, tree, content) \<Rightarrow>
        JObject
          [(''summary'', JString summary),
           (''tree'', JString tree),
           (''content'', JString content),
           (''metadata'', JObject
              [(''repo_url'', JString repo_url),
               (''timestamp'', JString (now_toISOString env)),
               (''options_used'', JObject options)])])"

definition ingest_github_repo_failure :: "string \<Rightarrow> json option \<Rightarrow> json" where
  "ingest_github_repo_failure repo_url message =
     JObject (defined_properties
       [(''error'', Some (JString ''Failed to ingest repository'')),
        (''message'', message),
        (''repo_url'', Some (JString repo_url))])"

definition ingest_github_repo ::
  "env \<Rightarrow> string \<Rightarrow> string list option \<Rightarrow> string list option \<Rightarrow> int option \<Rightarrow> run" where
  "ingest_github_repo env repo_url include_patterns exclude_patterns max_file_size =
     (let options = ingest_github_repo_options include_patterns exclude_patterns max_file_size in
      \<lparr> outcome =
          try_catch
            (case ingest env repo_url options of
               Inl error \<Rightarrow> Inl error
             | Inr r \<Rightarrow> Inr (text_result (ingest_github_repo_success env repo_url options r)))
            (\<lambda>error.
                case error_message error of
                  Inl e \<Rightarrow> Inl e
                | Inr message \<Rightarrow>
                    Inr (text_result (ingest_github_repo_failure repo_url message))),
        ingest_calls = [(repo_url, options)] \<rparr>)"

subsection \<open>\<^verbatim>\<open>get_repo_structure\<close>\<close>

definition get_repo_structure_options :: options where
  "get_repo_structure_options = [(''max_file_size'', JNumber 1)]"

definition get_repo_structure_success :: "string \<Rightarrow> ingest_result \<Rightarrow> json" where
  "get_repo_structure_success repo_url r =
     (case r of (summary, tree, _) \<Rightarrow>
        JObject
          [(''summary'', JString summary),
           (''tree'', JString tree),
           (''repo_url'', JString repo_url)])"

definition get_repo_structure_failure :: "string \<Rightarrow> json option \<Rightarrow> json" where
  "get_repo_structure_failure repo_url message =
     JObject (defined_properties
       [(''error'', Some (JString ''Failed to get repository structure'')),
        (''message'', message),
        (''repo_url'', Some (JString repo_url))])"

definition get_repo_structure :: "env \<Rightarrow> string \<Rightarrow> run" where
  "get_repo_structure env repo_url =
     \<lparr> outcome =
         try_catch
           (case ingest env repo_url get_repo_structure_options of
              Inl error \<Rightarrow> Inl error
            | Inr r \<Rightarrow> Inr (text_result (get_repo_structure_success repo_url r)))
           (\<lambda>error.
               case error_message error of
                 Inl e \<Rightarrow> Inl e
               | Inr message \<Rightarrow>
                   Inr (text_result (get_repo_structure_failure repo_url message))),
       ingest_calls = [(repo_url, get_repo_structure_options)] \<rparr>"

subsection \<open>\<^verbatim>\<open>analyze_code_files\<close>\<close>

datatype language = Python | Javascript | Typescript | Go | Rust | Java | Csharp

fun language_name :: "language \<Rightarrow> string" where
  "language_name Python = ''python''"
| "language_name Javascript = ''javascript''"
| "language_name Typescript = ''typescript''"
| "language_name Go = ''go''"
| "language_name Rust = ''rust''"
| "language_name Java = ''java''"
| "language_name Csharp = ''csharp''"

fun patternMap :: "language \<Rightarrow> string list" where
  "patternMap Python = [''*.py'']"
| "patternMap Javascript = [''*.js'', ''*.mjs'']"
| "patternMap Typescript = [''*.ts'', ''*.tsx'']"
| "patternMap Go = [''*.go'']"
| "patternMap Rust = [''*.rs'']"
| "patternMap Java = [''*.java'']"
| "patternMap Csharp = [''*.cs'']"

definition analyze_code_files_options :: "language \<Rightarrow> options" where
  "analyze_code_files_options language =
     [(''include_patterns'', string_array (patternMap language)),
      (''exclude_patterns'',
         string_array [''node_modules/*'', ''dist/*'', ''build/*'', ''*.min.js'']),
      (''max_file_size'', JNumber 102400)]"

definition analyze_code_files_success :: "string \<Rightarrow> language \<Rightarrow> ingest_result \<Rightarrow> json" where
  "analyze_code_files_success repo_url language r =
     (case r of (summary, tree, content) \<Rightarrow>
        JObject
          [(''summary'', JString summary),
           (''tree'', JString tree),
           (''content'', JString content),
           (''analysis'', JObject
              [(''language'', JString (language_name language)),
               (''patterns_used'', string_array (patternMap language)),
               (''repo_url'', JString repo_url)])])"

definition analyze_code_files_failure :: "string \<Rightarrow> language \<Rightarrow> json option \<Rightarrow> json" where
  "analyze_code_files_failure repo_url language message =
     JObject (defined_properties
       [(''error'', Some (JString ''Failed to analyze code files'')),
        (''message'', message),
        (''repo_url'', Some (JString repo_url)),
        (''language'', Some (JString (language_name language)))])"

definition analyze_code_files :: "env \<Rightarrow> string \<Rightarrow> language \<Rightarrow> run" where
  "analyze_code_files env repo_url language =
     \<lparr> outcome =
         try_catch
           (case ingest env repo_url (analyze_code_files_options language) of
              Inl error \<Rightarrow> Inl error
            | Inr r \<Rightarrow> Inr (text_result (analyze_code_files_success repo_url language r)))
           (\<lambda>error.
               case error_message error of
                 Inl e \<Rightarrow> Inl e
               | Inr message \<Rightarrow>
                   Inr (text_result (analyze_code_files_failure repo_url language message))),
       ingest_calls = [(repo_url, analyze_code_files_options language)] \<rparr>"

subsection \<open>\<^verbatim>\<open>get_repo_docs\<close>\<close>

definition get_repo_docs_options :: options where
  "get_repo_docs_options =
     [(''include_patterns'',
         string_array [''*.md'', ''*.mdx'', ''*.txt'', ''LICENSE*'', ''README*'']),
      (''max_file_size'', JNumber 51200)]"

definition get_repo_docs_success :: "string \<Rightarrow> ingest_result \<Rightarrow> json" where
  "get_repo_docs_success repo_url r =
     (case r of (summary, tree, content) \<Rightarrow>
        JObject
          [(''summary'', JString summary),
           (''tree'', JString tree),
           (''content'', JString content),
           (''metadata'', JObject
              [(''type'', JString ''documentation''),
               (''repo_url'', JString repo_url)])])"

definition get_repo_docs_failure :: "string \<Rightarrow> json option \<Rightarrow> json" where
  "get_repo_docs_failure repo_url message =
     JObject (defined_properties
       [(''error'', Some (JString ''Failed to get repository documentation'')),
        (''message'', message),
        (''repo_url'', Some (JString repo_url))])"

definition get_repo_docs :: "env \<Rightarrow> string \<Rightarrow> run" where
  "get_repo_docs env repo_url =
     \<lparr> outcome =
         try_catch
           (case ingest env repo_url get_repo_docs_options of
              Inl error \<Rightarrow> Inl error
            | Inr r \<Rightarrow> Inr (text_result (get_repo_docs_success repo_url r)))
           (\<lambda>error.
               case error_message error of
                 Inl e \<Rightarrow> Inl e
               | Inr message \<Rightarrow>
                   Inr (text_result (get_repo_docs_failure repo_url message))),
       ingest_calls = [(repo_url, get_repo_docs_options)] \<rparr>"

section \<open>Input schemas and dispatch\<close>

text \<open>
  Each tool is registered with \<^verbatim>\<open>server.tool(name, description, shape, handler)\<close>.
  The server parses the arguments of a call against the registered shape and runs the
  handler on the parsed value only; a call whose arguments do not parse is answered
  with an invalid-parameters failure without running the handler. A parser below
  returns \<open>None\<close> where \<^verbatim>\<open>safeParse\<close> fails. Its argument is the value found
  under the key, \<open>None\<close> when the key is missing.
\<close>

definition z_string :: "json option \<Rightarrow> string option" where
  "z_string v = (case v of Some (JString s) \<Rightarrow> Some s | _ \<Rightarrow> None)"

definition z_number :: "json option \<Rightarrow> int option" where
  "z_number v = (case v of Some (JNumber n) \<Rightarrow> Some n | _ \<Rightarrow> None)"

fun z_string_elements :: "json list \<Rightarrow> string list option" where
  "z_string_elements [] = Some []"
| "z_string_elements (x # xs) =
     (case (z_string (Some x), z_string_elements xs) of
        (Some s, Some ss) \<Rightarrow> Some (s # ss)
      | _ \<Rightarrow> None)"

definition z_array_string :: "json option \<Rightarrow> string list option" where
  "z_array_string v = (case v of Some (JArray xs) \<Rightarrow> z_string_elements xs | _ \<Rightarrow> None)"

definition z_optional :: "(json option \<Rightarrow> 'a option) \<Rightarrow> json option \<Rightarrow> 'a option option" where
  "z_optional z v = (case v of None \<Rightarrow> Some None | Some _ \<Rightarrow> map_option Some (z v))"

definition language_enum :: "language list" where
  "language_enum = [Python, Javascript, Typescript, Go, Rust, Java, Csharp]"

definition z_enum_language :: "json option \<Rightarrow> language option" where
  "z_enum_language v =
     (case v of
        Some (JString s) \<Rightarrow> find (\<lambda>l. language_name l = s) language_enum
      | _ \<Rightarrow> None)"

text \<open>The answer to a tool call: no such tool, arguments rejected by the schema, or the
  run of the handler.\<close>

datatype tool_call = ToolNotFound | InvalidParams | Invoked run

definition ingest_github_repo_tool :: "env \<Rightarrow> json \<Rightarrow> tool_call" where
  "ingest_github_repo_tool env arguments =
     (case arguments of
        JObject props \<Rightarrow>
          (case (z_string (map_of props ''repo_url''),
                 z_optional z_array_string (map_of props ''include_patterns''),
                 z_optional z_array_string (map_of props ''exclude_patterns''),
                 z_optional z_number (map_of props ''max_file_size'')) of
             (Some repo_url, Some include_patterns, Some exclude_patterns, Some max_file_size) \<Rightarrow>
               Invoked (ingest_github_repo env repo_url include_patterns exclude_patterns
                          max_file_size)
           | _ \<Rightarrow> InvalidParams)
      | _ \<Rightarrow> InvalidParams)"

definition get_repo_structure_tool :: "env \<Rightarrow> json \<Rightarrow> tool_call" where
  "get_repo_structure_tool env arguments =
     (case arguments of
        JObject props \<Rightarrow>
          (case z_string (map_of props ''repo_url'') of
             Some repo_url \<Rightarrow> Invoked (get_repo_structure env repo_url)
           | None \<Rightarrow> InvalidParams)
      | _ \<Rightarrow> InvalidParams)"

definition analyze_code_files_tool :: "env \<Rightarrow> json \<Rightarrow> tool_call" where
  "analyze_code_files_tool env arguments =
     (case arguments of
        JObject props \<Rightarrow>
          (case (z_string (map_of props ''repo_url''),
                 z_enum_language (map_of props ''language'')) of
             (Some repo_url, Some language) \<Rightarrow>
               Invoked (analyze_code_files env repo_url language)
           | _ \<Rightarrow> InvalidParams)
      | _ \<Rightarrow> InvalidParams)"

definition get_repo_docs_tool :: "env \<Rightarrow> json \<Rightarrow> tool_call" where
  "get_repo_docs_tool env arguments =
     (case arguments of
        JObject props \<Rightarrow>
          (case z_string (map_of props ''repo_url'') of
             Some repo_url \<Rightarrow> Invoked (get_repo_docs env repo_url)
           | None \<Rightarrow> InvalidParams)
      | _ \<Rightarrow> InvalidParams)"

definition call_tool :: "env \<Rightarrow> string \<Rightarrow> json \<Rightarrow> tool_call" where
  "call_tool env name arguments =
     (if name = ''ingest_github_repo'' then ingest_github_repo_tool env arguments
      else if name = ''get_repo_structure'' then get_repo_structure_tool env arguments
      else if name = ''analyze_code_files'' then analyze_code_files_tool env arguments
      else if name = ''get_repo_docs'' then get_repo_docs_tool env arguments
      else ToolNotFound)"

definition collaborator_calls :: "tool_call \<Rightarrow> (string \<times> options) list" where
  "collaborator_calls c = (case c of Invoked r \<Rightarrow> ingest_calls r | _ \<Rightarrow> [])"

section \<open>The reply shape of the specification\<close>

text \<open>
  The specification describes a reply as either a success with a payload or a failure
  with an error kind, a message and a context. The handlers write a failure as an object
  with the keys \<^verbatim>\<open>error\<close> and \<^verbatim>\<open>message\<close> followed by the echoed inputs, and a
  success as an object without the key \<^verbatim>\<open>error\<close>. \<open>operation_reply\<close> reads a
  reply object in the specification's terms: the error kind is the value of
  \<^verbatim>\<open>error\<close>, the context is what remains after \<^verbatim>\<open>error\<close> and
  \<^verbatim>\<open>message\<close>, and the repository reference is the key \<^verbatim>\<open>repo_url\<close>.
\<close>

datatype operation_reply =
    Success "(string \<times> json) list"
  | Failure string string "(string \<times> json) list"

definition operation_reply :: "json \<Rightarrow> operation_reply option" where
  "operation_reply v =
     (case v of
        JObject kvs \<Rightarrow>
          (case map_of kvs ''error'' of
             None \<Rightarrow> Some (Success kvs)
           | Some (JString error_kind) \<Rightarrow>
               (case map_of kvs ''message'' of
                  Some (JString message) \<Rightarrow>
                    Some (Failure error_kind message
                            (filter (\<lambda>kv. fst kv \<noteq> ''error'' \<and> fst kv \<noteq> ''message'') kvs))
                | _ \<Rightarrow> None)
           | _ \<Rightarrow> None)
      | _ \<Rightarrow> None)"

text \<open>The failure reply in the specification's words: a failure with an error kind, a
  non-empty message, and the repository reference of the call in its context.\<close>

definition failure_reply_as_specified :: "json \<Rightarrow> string \<Rightarrow> bool" where
  "failure_reply_as_specified v repository_reference =
     (case operation_reply v of
        Some (Failure error_kind message context) \<Rightarrow>
          error_kind \<noteq> [] \<and> message \<noteq> [] \<and>
          map_of context ''repo_url'' = Some (JString repository_reference)
      | _ \<Rightarrow> False)"

section \<open>Collaborators for concrete runs\<close>

definition raising :: "thrown \<Rightarrow> string \<Rightarrow> options \<Rightarrow> thrown + ingest_result" where
  "raising error repo_url options = Inl error"

definition returning :: "ingest_result \<Rightarrow> string \<Rightarrow> options \<Rightarrow> thrown + ingest_result" where
  "returning r repo_url options = Inr r"

definition env_raising :: "thrown \<Rightarrow> string \<Rightarrow> env" where
  "env_raising error clock = \<lparr> ingest = raising error, now_toISOString = clock \<rparr>"

definition env_returning :: "ingest_result \<Rightarrow> string \<Rightarrow> env" where
  "env_returning r clock = \<lparr> ingest = returning r, now_toISOString = clock \<rparr>"

section \<open>Basic facts\<close>

lemma try_catch_simps:
  "try_catch (Inl error) handler = handler error"
  "try_catch (Inr v) handler = Inr v"
  by (simp_all add: try_catch_def)

lemma env_raising_simps:
  "ingest (env_raising error clock) repo_url options = Inl error"
  "now_toISOString (env_raising error clock) = clock"
  by (simp_all add: env_raising_def raising_def)

lemma env_returning_simps:
  "ingest (env_returning r clock) repo_url options = Inr r"
  "now_toISOString (env_returning r clock) = clock"
  by (simp_all add: env_returning_def returning_def)

lemma ingest_github_repo_calls:
  "ingest_calls (ingest_github_repo env repo_url inc exc mfs) =
     [(repo_url, ingest_github_repo_options inc exc mfs)]"
  by (simp add: ingest_github_repo_def Let_def)

lemma ingest_github_repo_returned:
  assumes "ingest env repo_url (ingest_github_repo_options inc exc mfs) = Inr r"
  shows "outcome (ingest_github_repo env repo_url inc exc mfs) =
           Inr (text_result (ingest_github_repo_success env repo_url
                  (ingest_github_repo_options inc exc mfs) r))"
  using assms by (simp add: ingest_github_repo_def Let_def try_catch_simps)

lemma get_repo_structure_returned:
  assumes "ingest env repo_url get_repo_structure_options = Inr r"
  shows "outcome (get_repo_structure env repo_url) =
           Inr (text_result (get_repo_structure_success repo_url r))"
  using assms by (simp add: get_repo_structure_def try_catch_simps)

lemma analyze_code_files_returned:
  assumes "ingest env repo_url (analyze_code_files_options language) = Inr r"
  shows "outcome (analyze_code_files env repo_url language) =
           Inr (text_result (analyze_code_files_success repo_url language r))"
  using assms by (simp add: analyze_code_files_def try_catch_simps)

lemma get_repo_docs_returned:
  assumes "ingest env repo_url get_repo_docs_options = Inr r"
  shows "outcome (get_repo_docs env repo_url) =
           Inr (text_result (get_repo_docs_success repo_url r))"
  using assms by (simp add: get_repo_docs_def try_catch_simps)

lemma ingest_github_repo_options_lookup:
  "map_of (ingest_github_repo_options inc exc mfs) ''include_patterns'' = map_option string_array inc"
  "map_of (ingest_github_repo_options inc exc mfs) ''exclude_patterns'' = map_option string_array exc"
  "map_of (ingest_github_repo_options inc exc mfs) ''max_file_size'' =
     (case mfs of None \<Rightarrow> None | Some n \<Rightarrow> if n = 0 then None else Some (JNumber n))"
  unfolding ingest_github_repo_options_def Let_def
  by (simp_all add: update_conv' split: option.split)

lemma ingest_github_repo_options_zero:
  "ingest_github_repo_options inc exc (Some 0) = ingest_github_repo_options inc exc None"
  by (simp add: ingest_github_repo_options_def)

lemma z_enum_language_name: "z_enum_language (Some (JString (language_name l))) = Some l"
  by (cases l) (simp_all add: z_enum_language_def language_enum_def)

lemma z_enum_language_outside:
  assumes "v \<notin> (\<lambda>s. Some (JString s)) `
             {''python'', ''javascript'', ''typescript'', ''go'', ''rust'', ''java'', ''csharp''}"
  shows "z_enum_language v = None"
proof (cases v)
  case None
  then show ?thesis by (simp add: z_enum_language_def)
next
  case (Some j)
  show ?thesis
  proof (cases j)
    case (JString s)
    with Some assms show ?thesis
      by (auto simp add: z_enum_language_def language_enum_def)
  qed (simp_all add: Some z_enum_language_def)
qed

lemma ingest_github_repo_raised:
  assumes "ingest env repo_url (ingest_github_repo_options inc exc mfs) = Inl error"
  shows "outcome (ingest_github_repo env repo_url inc exc mfs) =
           (case error_message error of
              Inl e \<Rightarrow> Inl e
            | Inr message \<Rightarrow> Inr (text_result (ingest_github_repo_failure repo_url message)))"
  using assms by (simp add: ingest_github_repo_def Let_def try_catch_simps)

lemma get_repo_structure_raised:
  assumes "ingest env repo_url get_repo_structure_options = Inl error"
  shows "outcome (get_repo_structure env repo_url) =
           (case error_message error of
              Inl e \<Rightarrow> Inl e
            | Inr message \<Rightarrow> Inr (text_result (get_repo_structure_failure repo_url message)))"
  using assms by (simp add: get_repo_structure_def try_catch_simps)

lemma analyze_code_files_raised:
  assumes "ingest env repo_url (analyze_code_files_options language) = Inl error"
  shows "outcome (analyze_code_files env repo_url language) =
           (case error_message error of
              Inl e \<Rightarrow> Inl e
            | Inr message \<Rightarrow>
                Inr (text_result (analyze_code_files_failure repo_url language message)))"
  using assms by (simp add: analyze_code_files_def try_catch_simps)

lemma get_repo_docs_raised:
  assumes "ingest env repo_url get_repo_docs_options = Inl error"
  shows "outcome (get_repo_docs env repo_url) =
           (case error_message error of
              Inl e \<Rightarrow> Inl e
            | Inr message \<Rightarrow> Inr (text_result (get_repo_docs_failure repo_url message)))"
  using assms by (simp add: get_repo_docs_def try_catch_simps)

lemma operation_reply_failures:
  "operation_reply (ingest_github_repo_failure repo_url (Some (JString text))) =
     Some (Failure ''Failed to ingest repository'' text [(''repo_url'', JString repo_url)])"
  "operation_reply (get_repo_structure_failure repo_url (Some (JString text))) =
     Some (Failure ''Failed to get repository structure'' text [(''repo_url'', JString repo_url)])"
  "operation_reply (analyze_code_files_failure repo_url language (Some (JString text))) =
     Some (Failure ''Failed to analyze code files'' text
             [(''repo_url'', JString repo_url), (''language'', JString (language_name language))])"
  "operation_reply (get_repo_docs_failure repo_url (Some (JString text))) =
     Some (Failure ''Failed to get repository documentation'' text
             [(''repo_url'', JString repo_url)])"
  by (simp_all add: operation_reply_def ingest_github_repo_failure_def
      get_repo_structure_failure_def analyze_code_files_failure_def get_repo_docs_failure_def)

lemma error_message_simps:
  "error_message (ErrorInstance message) = Inr message"
  "error_message ThrownUndefined = Inr (Some (JString ''undefined''))"
  "error_message (ThrownValue v) = Inr (Some (JString (js_String v)))"
  "error_message (ThrownObject (Inr s)) = Inr (Some (JString s))"
  "error_message (ThrownObject (Inl e)) = Inl e"
  by (simp_all add: error_message_def)

text \<open>The serialiser on two small objects, written out character by character:
  two spaces per level, one member per line, a space after each colon, and empty
  objects without a line break.\<close>

lemma JSON_stringify_failure_example:
  "JSON_stringify (get_repo_docs_failure ''r'' (Some (JString ''no''))) =
     ''{'' @ [CHR 0x0A] @
     ''  '' @ [CHR 0x22] @ ''error'' @ [CHR 0x22] @ '': '' @
       [CHR 0x22] @ ''Failed to get repository documentation'' @ [CHR 0x22] @ '','' @ [CHR 0x0A] @
     ''  '' @ [CHR 0x22] @ ''message'' @ [CHR 0x22] @ '': '' @
       [CHR 0x22] @ ''no'' @ [CHR 0x22] @ '','' @ [CHR 0x0A] @
     ''  '' @ [CHR 0x22] @ ''repo_url'' @ [CHR 0x22] @ '': '' @
       [CHR 0x22] @ ''r'' @ [CHR 0x22] @ [CHR 0x0A] @
     ''}''"
  by (simp add: JSON_stringify_def get_repo_docs_failure_def quote_def
      escape_char_def newline_def)

text \<open>An \<^verbatim>\<open>Error\<close> whose message is \<^verbatim>\<open>undefined\<close>: the reply text has no
  \<^verbatim>\<open>message\<close> member.\<close>

lemma JSON_stringify_undefined_message_example:
  "JSON_stringify (get_repo_docs_failure ''r'' None) =
     ''{'' @ [CHR 0x0A] @
     ''  '' @ [CHR 0x22] @ ''error'' @ [CHR 0x22] @ '': '' @
       [CHR 0x22] @ ''Failed to get repository documentation'' @ [CHR 0x22] @ '','' @ [CHR 0x0A] @
     ''  '' @ [CHR 0x22] @ ''repo_url'' @ [CHR 0x22] @ '': '' @
       [CHR 0x22] @ ''r'' @ [CHR 0x22] @ [CHR 0x0A] @
     ''}''"
  by (simp add: JSON_stringify_def get_repo_docs_failure_def quote_def
      escape_char_def newline_def)

lemma JSON_stringify_options_example:
  "JSON_stringify
     (JObject [(''options_used'', JObject (ingest_github_repo_options (Some [''*.py'']) None (Some 1024))),
               (''none'', JObject (ingest_github_repo_options None None (Some 0)))]) =
     ''{'' @ [CHR 0x0A] @
     ''  '' @ [CHR 0x22] @ ''options_used'' @ [CHR 0x22] @ '': {'' @ [CHR 0x0A] @
     ''    '' @ [CHR 0x22] @ ''include_patterns'' @ [CHR 0x22] @ '': ['' @ [CHR 0x0A] @
     ''      '' @ [CHR 0x22] @ ''*.py'' @ [CHR 0x22] @ [CHR 0x0A] @
     ''    ],'' @ [CHR 0x0A] @
     ''    '' @ [CHR 0x22] @ ''max_file_size'' @ [CHR 0x22] @ '': 1024'' @ [CHR 0x0A] @
     ''  },'' @ [CHR 0x0A] @
     ''  '' @ [CHR 0x22] @ ''none'' @ [CHR 0x22] @ '': {}'' @ [CHR 0x0A] @
     ''}''"
  by code_simp

text \<open>The reply of \<^verbatim>\<open>ingest_github_repo\<close> carries the clock reading: two runs that
  differ in nothing but the time of the call give different texts.\<close>

lemma ingest_github_repo_reply_depends_on_clock:
  "outcome (ingest_github_repo (env_returning (''s'', ''t'', ''c'') ''2024-01-01T00:00:00.000Z'')
       ''r'' None None None) \<noteq>
   outcome (ingest_github_repo (env_returning (''s'', ''t'', ''c'') ''2024-01-01T00:00:00.001Z'')
       ''r'' None None None)"
  by (simp add: ingest_github_repo_returned env_returning_simps text_result_def
      ingest_github_repo_success_def JSON_stringify_def quote_def escape_char_def newline_def
      ingest_github_repo_options_def)

section \<open>Failure replies\<close>

text \<open>
  C1, as the specification states it: whenever the collaborator raises, each of the four
  operations returns a failure reply with a non-empty message and the repository
  reference of the call. This fails in three ways, shown on
  \<^verbatim>\<open>ingest_github_repo\<close>. The handler copies the message of an
  \<^verbatim>\<open>Error\<close> as it is, so an empty message gives a reply with an empty message,
  and a message that is \<^verbatim>\<open>undefined\<close> gives a reply without a message. And the
  catch block converts any other value with \<^verbatim>\<open>String\<close>, unguarded, so a thrown
  object without a conversion, such as \<^verbatim>\<open>Object.create(null)\<close>, makes the catch
  block itself throw: the promise of the handler is rejected and there is no reply.
\<close>

theorem collaborator_failure_reply_counterexample:
  "outcome (ingest_github_repo
      (env_raising (ErrorInstance (Some (JString []))) ''2024-01-01T00:00:00.000Z'')
      ''https://github.com/u/r'' None None None) =
     Inr (text_result
       (JObject [(''error'', JString ''Failed to ingest repository''),
                 (''message'', JString []),
                 (''repo_url'', JString ''https://github.com/u/r'')])) \<and>
   \<not> failure_reply_as_specified
       (JObject [(''error'', JString ''Failed to ingest repository''),
                 (''message'', JString []),
                 (''repo_url'', JString ''https://github.com/u/r'')])
       ''https://github.com/u/r'' \<and>
   outcome (ingest_github_repo
      (env_raising (ErrorInstance None) ''2024-01-01T00:00:00.000Z'')
      ''https://github.com/u/r'' None None None) =
     Inr (text_result
       (JObject [(''error'', JString ''Failed to ingest repository''),
                 (''repo_url'', JString ''https://github.com/u/r'')])) \<and>
   \<not> failure_reply_as_specified
       (JObject [(''error'', JString ''Failed to ingest repository''),
                 (''repo_url'', JString ''https://github.com/u/r'')])
       ''https://github.com/u/r'' \<and>
   outcome (ingest_github_repo
      (env_raising (ThrownObject (Inl cannot_convert_TypeError)) ''2024-01-01T00:00:00.000Z'')
      ''https://github.com/u/r'' None None None) =
     Inl cannot_convert_TypeError"
  by (simp add: ingest_github_repo_raised env_raising_simps ingest_github_repo_failure_def
      error_message_simps failure_reply_as_specified_def operation_reply_def)

text \<open>
  C1, amended: whenever the collaborator raises an error from which the catch block
  extracts a string \<open>message_text\<close> (an \<^verbatim>\<open>Error\<close> whose message is that
  string, or a value that is not an \<^verbatim>\<open>Error\<close> and that \<^verbatim>\<open>String\<close>
  converts to it), each of the four operations resolves with the text of a failure reply
  whose error kind names the operation, whose message is \<open>message_text\<close> (so it is
  non-empty exactly when \<open>message_text\<close> is), and whose context is the repository
  reference of the call, followed for \<^verbatim>\<open>analyze_code_files\<close> by the language.
\<close>

theorem collaborator_failure_reply:
  "(ingest env repo_url (ingest_github_repo_options include_patterns exclude_patterns
        max_file_size) = Inl error \<and>
    error_message error = Inr (Some (JString message_text)) \<longrightarrow>
      outcome (ingest_github_repo env repo_url include_patterns exclude_patterns max_file_size) =
        Inr (text_result (ingest_github_repo_failure repo_url (Some (JString message_text)))) \<and>
      operation_reply (ingest_github_repo_failure repo_url (Some (JString message_text))) =
        Some (Failure ''Failed to ingest repository'' message_text
                [(''repo_url'', JString repo_url)])) \<and>
   (ingest env repo_url get_repo_structure_options = Inl error \<and>
    error_message error = Inr (Some (JString message_text)) \<longrightarrow>
      outcome (get_repo_structure env repo_url) =
        Inr (text_result (get_repo_structure_failure repo_url (Some (JString message_text)))) \<and>
      operation_reply (get_repo_structure_failure repo_url (Some (JString message_text))) =
        Some (Failure ''Failed to get repository structure'' message_text
                [(''repo_url'', JString repo_url)])) \<and>
   (ingest env repo_url (analyze_code_files_options language) = Inl error \<and>
    error_message error = Inr (Some (JString message_text)) \<longrightarrow>
      outcome (analyze_code_files env repo_url language) =
        Inr (text_result (analyze_code_files_failure repo_url language (Some (JString message_text)))) \<and>
      operation_reply (analyze_code_files_failure repo_url language (Some (JString message_text))) =
        Some (Failure ''Failed to analyze code files'' message_text
                [(''repo_url'', JString repo_url),
                 (''language'', JString (language_name language))])) \<and>
   (ingest env repo_url get_repo_docs_options = Inl error \<and>
    error_message error = Inr (Some (JString message_text)) \<longrightarrow>
      outcome (get_repo_docs env repo_url) =
        Inr (text_result (get_repo_docs_failure repo_url (Some (JString message_text)))) \<and>
      operation_reply (get_repo_docs_failure repo_url (Some (JString message_text))) =
        Some (Failure ''Failed to get repository documentation'' message_text
                [(''repo_url'', JString repo_url)]))"
  by (simp add: ingest_github_repo_raised get_repo_structure_raised analyze_code_files_raised
      get_repo_docs_raised operation_reply_failures)

theorem collaborator_failure_reply_witness:
  "ingest (env_raising (ErrorInstance (Some (JString ''Repository not found'')))
             ''2024-01-01T00:00:00.000Z'')
      ''https://github.com/u/r'' (ingest_github_repo_options (Some [''*.py'']) None (Some 1024)) =
     Inl (ErrorInstance (Some (JString ''Repository not found''))) \<and>
   ingest (env_raising (ErrorInstance (Some (JString ''Repository not found'')))
             ''2024-01-01T00:00:00.000Z'')
      ''https://github.com/u/r'' get_repo_structure_options =
     Inl (ErrorInstance (Some (JString ''Repository not found''))) \<and>
   ingest (env_raising (ErrorInstance (Some (JString ''Repository not found'')))
             ''2024-01-01T00:00:00.000Z'')
      ''https://github.com/u/r'' (analyze_code_files_options Rust) =
     Inl (ErrorInstance (Some (JString ''Repository not found''))) \<and>
   ingest (env_raising (ErrorInstance (Some (JString ''Repository not found'')))
             ''2024-01-01T00:00:00.000Z'')
      ''https://github.com/u/r'' get_repo_docs_options =
     Inl (ErrorInstance (Some (JString ''Repository not found''))) \<and>
   error_message (ErrorInstance (Some (JString ''Repository not found''))) =
     Inr (Some (JString ''Repository not found'')) \<and>
   outcome (ingest_github_repo
      (env_raising (ErrorInstance (Some (JString ''Repository not found'')))
         ''2024-01-01T00:00:00.000Z'')
      ''https://github.com/u/r'' (Some [''*.py'']) None (Some 1024)) =
     Inr (text_result (ingest_github_repo_failure ''https://github.com/u/r''
            (Some (JString ''Repository not found'')))) \<and>
   operation_reply (ingest_github_repo_failure ''https://github.com/u/r''
                      (Some (JString ''Repository not found''))) =
     Some (Failure ''Failed to ingest repository'' ''Repository not found''
             [(''repo_url'', JString ''https://github.com/u/r'')]) \<and>
   outcome (get_repo_structure
      (env_raising (ErrorInstance (Some (JString ''Repository not found'')))
         ''2024-01-01T00:00:00.000Z'')
      ''https://github.com/u/r'') =
     Inr (text_result (get_repo_structure_failure ''https://github.com/u/r''
            (Some (JString ''Repository not found'')))) \<and>
   operation_reply (get_repo_structure_failure ''https://github.com/u/r''
                      (Some (JString ''Repository not found''))) =
     Some (Failure ''Failed to get repository structure'' ''Repository not found''
             [(''repo_url'', JString ''https://github.com/u/r'')]) \<and>
   outcome (analyze_code_files
      (env_raising (ErrorInstance (Some (JString ''Repository not found'')))
         ''2024-01-01T00:00:00.000Z'')
      ''https://github.com/u/r'' Rust) =
     Inr (text_result (analyze_code_files_failure ''https://github.com/u/r'' Rust
            (Some (JString ''Repository not found'')))) \<and>
   operation_reply (analyze_code_files_failure ''https://github.com/u/r'' Rust
                      (Some (JString ''Repository not found''))) =
     Some (Failure ''Failed to analyze code files'' ''Repository not found''
             [(''repo_url'', JString ''https://github.com/u/r''),
              (''language'', JString ''rust'')]) \<and>
   outcome (get_repo_docs
      (env_raising (ErrorInstance (Some (JString ''Repository not found'')))
         ''2024-01-01T00:00:00.000Z'')
      ''https://github.com/u/r'') =
     Inr (text_result (get_repo_docs_failure ''https://github.com/u/r''
            (Some (JString ''Repository not found'')))) \<and>
   operation_reply (get_repo_docs_failure ''https://github.com/u/r''
                      (Some (JString ''Repository not found''))) =
     Some (Failure ''Failed to get repository documentation'' ''Repository not found''
             [(''repo_url'', JString ''https://github.com/u/r'')])"
  using collaborator_failure_reply
    [where env = "env_raising (ErrorInstance (Some (JString ''Repository not found'')))
                    ''2024-01-01T00:00:00.000Z''"
       and repo_url = "''https://github.com/u/r''"
       and include_patterns = "Some [''*.py'']" and exclude_patterns = None
       and max_file_size = "Some 1024" and language = Rust
       and error = "ErrorInstance (Some (JString ''Repository not found''))"
       and message_text = "''Repository not found''"]
  by (simp add: env_raising_simps error_message_simps)




section \<open>Option translation of \<^verbatim>\<open>ingest_github_repo\<close>\<close>

text \<open>
  C2, as the specification states it: every optional field that is present in the input
  appears verbatim under its key in the option set passed to the collaborator. This
  fails for a \<^verbatim>\<open>max_file_size\<close> of zero: the schema accepts the arguments,
  the field is present, the guard \<^verbatim>\<open>if (max_file_size)\<close> is false, and the
  option set passed is empty.
\<close>

theorem max_file_size_zero_not_copied:
  "collaborator_calls
     (call_tool (env_returning (''summary'', ''tree'', ''content'') ''2024-01-01T00:00:00.000Z'')
        ''ingest_github_repo''
        (JObject [(''repo_url'', JString ''https://github.com/u/r''),
                  (''max_file_size'', JNumber 0)])) =
     [(''https://github.com/u/r'', [])] \<and>
   ingest_calls
     (ingest_github_repo (env_returning (''summary'', ''tree'', ''content'') ''2024-01-01T00:00:00.000Z'')
        ''https://github.com/u/r'' None None (Some 0)) =
     [(''https://github.com/u/r'', ingest_github_repo_options None None (Some 0))] \<and>
   ingest_github_repo_options None None (Some 0) = [] \<and>
   map_of (ingest_github_repo_options None None (Some 0)) ''max_file_size'' \<noteq> Some (JNumber 0)"
  by (simp add: ingest_github_repo_calls ingest_github_repo_options_def call_tool_def
      ingest_github_repo_tool_def collaborator_calls_def z_string_def z_optional_def z_number_def)

text \<open>
  C2, amended: the collaborator is called once, with the option set built from the
  input. In that set \<^verbatim>\<open>include_patterns\<close> and \<^verbatim>\<open>exclude_patterns\<close> hold
  the input's array when the field is present and are absent when it is absent; and
  \<^verbatim>\<open>max_file_size\<close> holds the input's number when the field is present and not
  zero, and is absent when the field is absent. (\<open>map_of options key = map_option f field\<close>
  says both: the key is bound to the field's value when there is one, and unbound
  otherwise.)
\<close>

theorem ingest_github_repo_options_copied:
  "ingest_calls (ingest_github_repo env repo_url include_patterns exclude_patterns max_file_size) =
     [(repo_url, ingest_github_repo_options include_patterns exclude_patterns max_file_size)] \<and>
   map_of (ingest_github_repo_options include_patterns exclude_patterns max_file_size)
       ''include_patterns'' = map_option string_array include_patterns \<and>
   map_of (ingest_github_repo_options include_patterns exclude_patterns max_file_size)
       ''exclude_patterns'' = map_option string_array exclude_patterns \<and>
   (max_file_size \<noteq> Some 0 \<longrightarrow>
      map_of (ingest_github_repo_options include_patterns exclude_patterns max_file_size)
          ''max_file_size'' = map_option JNumber max_file_size)"
  by (cases max_file_size) (simp_all add: ingest_github_repo_calls ingest_github_repo_options_lookup)

theorem ingest_github_repo_options_copied_witness:
  "Some (1024 :: int) \<noteq> Some 0 \<and>
   ingest_calls
     (ingest_github_repo (env_returning (''summary'', ''tree'', ''content'') ''2024-01-01T00:00:00.000Z'')
        ''https://github.com/u/r'' (Some [''*.py'', ''*.md'']) None (Some 1024)) =
     [(''https://github.com/u/r'',
       [(''include_patterns'', JArray [JString ''*.py'', JString ''*.md'']),
        (''max_file_size'', JNumber 1024)])] \<and>
   map_of (ingest_github_repo_options (Some [''*.py'', ''*.md'']) None (Some 1024))
       ''include_patterns'' = Some (JArray [JString ''*.py'', JString ''*.md'']) \<and>
   map_of (ingest_github_repo_options (Some [''*.py'', ''*.md'']) None (Some 1024))
       ''exclude_patterns'' = None \<and>
   map_of (ingest_github_repo_options (Some [''*.py'', ''*.md'']) None (Some 1024))
       ''max_file_size'' = Some (JNumber 1024)"
  using ingest_github_repo_options_copied
    [where env = "env_returning (''summary'', ''tree'', ''content'') ''2024-01-01T00:00:00.000Z''"
       and repo_url = "''https://github.com/u/r''"
       and include_patterns = "Some [''*.py'', ''*.md'']" and exclude_patterns = None
       and max_file_size = "Some 1024"]
  by (simp add: string_array_def ingest_github_repo_options_def)

text \<open>
  C3: a call of \<^verbatim>\<open>ingest_github_repo\<close> with \<^verbatim>\<open>max_file_size\<close> zero runs
  exactly as the call without \<^verbatim>\<open>max_file_size\<close>: the collaborator is called
  once, with the option set of the call without the field, and that set has no
  \<^verbatim>\<open>max_file_size\<close> key.
\<close>

theorem max_file_size_zero_is_unset:
  "ingest_github_repo env repo_url include_patterns exclude_patterns (Some 0) =
     ingest_github_repo env repo_url include_patterns exclude_patterns None \<and>
   ingest_calls (ingest_github_repo env repo_url include_patterns exclude_patterns (Some 0)) =
     [(repo_url, ingest_github_repo_options include_patterns exclude_patterns None)] \<and>
   map_of (ingest_github_repo_options include_patterns exclude_patterns None)
       ''max_file_size'' = None"
  by (simp add: ingest_github_repo_def Let_def ingest_github_repo_options_zero
      ingest_github_repo_options_lookup)

section \<open>Fixed option sets\<close>

text \<open>
  C4: \<^verbatim>\<open>analyze_code_files\<close> with the language \<^verbatim>\<open>python\<close> calls the
  collaborator once, with \<^verbatim>\<open>include_patterns\<close> \<^verbatim>\<open>["*.py"]\<close>, the fixed
  exclude list and \<^verbatim>\<open>max_file_size\<close> 102400, whatever the environment and the
  repository reference. The same holds for a call through the dispatcher whose
  arguments carry that language, whatever other keys the arguments have.
\<close>

theorem analyze_code_files_python_options:
  "ingest_calls (analyze_code_files env repo_url Python) =
     [(repo_url,
       [(''include_patterns'', JArray [JString ''*.py'']),
        (''exclude_patterns'',
           JArray [JString ''node_modules/*'', JString ''dist/*'', JString ''build/*'',
                   JString ''*.min.js'']),
        (''max_file_size'', JNumber 102400)])] \<and>
   (map_of props ''repo_url'' = Some (JString repo_url) \<and>
    map_of props ''language'' = Some (JString ''python'') \<longrightarrow>
      collaborator_calls (call_tool env ''analyze_code_files'' (JObject props)) =
        ingest_calls (analyze_code_files env repo_url Python))"
  using z_enum_language_name [of Python]
  by (simp add: analyze_code_files_def analyze_code_files_options_def string_array_def
      call_tool_def analyze_code_files_tool_def collaborator_calls_def z_string_def)

theorem analyze_code_files_python_options_witness:
  "map_of [(''language'', JString ''python''), (''max_file_size'', JNumber 5),
           (''repo_url'', JString ''https://github.com/u/r'')] ''repo_url'' =
     Some (JString ''https://github.com/u/r'') \<and>
   map_of [(''language'', JString ''python''), (''max_file_size'', JNumber 5),
           (''repo_url'', JString ''https://github.com/u/r'')] ''language'' =
     Some (JString ''python'') \<and>
   collaborator_calls
     (call_tool (env_returning (''summary'', ''tree'', ''content'') ''2024-01-01T00:00:00.000Z'')
        ''analyze_code_files''
        (JObject [(''language'', JString ''python''), (''max_file_size'', JNumber 5),
                  (''repo_url'', JString ''https://github.com/u/r'')])) =
     [(''https://github.com/u/r'',
       [(''include_patterns'', JArray [JString ''*.py'']),
        (''exclude_patterns'',
           JArray [JString ''node_modules/*'', JString ''dist/*'', JString ''build/*'',
                   JString ''*.min.js'']),
        (''max_file_size'', JNumber 102400)])]"
  using analyze_code_files_python_options
    [where env = "env_returning (''summary'', ''tree'', ''content'') ''2024-01-01T00:00:00.000Z''"
       and repo_url = "''https://github.com/u/r''"
       and props = "[(''language'', JString ''python''), (''max_file_size'', JNumber 5),
                     (''repo_url'', JString ''https://github.com/u/r'')]"]
  by simp

text \<open>
  C5: \<^verbatim>\<open>get_repo_structure\<close> calls the collaborator once, with the option set
  \<^verbatim>\<open>{ max_file_size: 1 }\<close>; and when the collaborator returns, the reply is the
  JSON text of an object with exactly the keys \<^verbatim>\<open>summary\<close>, \<^verbatim>\<open>tree\<close> and
  \<^verbatim>\<open>repo_url\<close>: the returned content does not occur in it.
\<close>

theorem get_repo_structure_omits_content:
  "ingest_calls (get_repo_structure env repo_url) = [(repo_url, [(''max_file_size'', JNumber 1)])] \<and>
   (ingest env repo_url [(''max_file_size'', JNumber 1)] = Inr (summary, tree, content) \<longrightarrow>
      outcome (get_repo_structure env repo_url) =
        Inr (ToolResult [TextItem (JSON_stringify
               (JObject [(''summary'', JString summary),
                         (''tree'', JString tree),
                         (''repo_url'', JString repo_url)]))]))"
  by (simp add: get_repo_structure_def get_repo_structure_options_def try_catch_simps
      get_repo_structure_success_def text_result_def)

theorem get_repo_structure_omits_content_witness:
  "ingest (env_returning (''2 files'', ''src/index.ts'', ''import x'') ''2024-01-01T00:00:00.000Z'')
      ''https://github.com/u/r'' [(''max_file_size'', JNumber 1)] =
     Inr (''2 files'', ''src/index.ts'', ''import x'') \<and>
   ingest_calls
     (get_repo_structure
        (env_returning (''2 files'', ''src/index.ts'', ''import x'') ''2024-01-01T00:00:00.000Z'')
        ''https://github.com/u/r'') =
     [(''https://github.com/u/r'', [(''max_file_size'', JNumber 1)])] \<and>
   outcome
     (get_repo_structure
        (env_returning (''2 files'', ''src/index.ts'', ''import x'') ''2024-01-01T00:00:00.000Z'')
        ''https://github.com/u/r'') =
     Inr (ToolResult [TextItem (JSON_stringify
            (JObject [(''summary'', JString ''2 files''),
                      (''tree'', JString ''src/index.ts''),
                      (''repo_url'', JString ''https://github.com/u/r'')]))])"
  using get_repo_structure_omits_content
    [where env = "env_returning (''2 files'', ''src/index.ts'', ''import x'')
                    ''2024-01-01T00:00:00.000Z''"
       and repo_url = "''https://github.com/u/r''"
       and summary = "''2 files''" and tree = "''src/index.ts''" and content = "''import x''"]
  by (simp add: env_returning_simps)

text \<open>
  C6: \<^verbatim>\<open>get_repo_docs\<close> calls the collaborator once, with the option set that has
  \<^verbatim>\<open>include_patterns\<close> equal to the five documentation patterns and
  \<^verbatim>\<open>max_file_size\<close> 51200, and no \<^verbatim>\<open>exclude_patterns\<close> key.
\<close>

theorem get_repo_docs_fixed_options:
  "ingest_calls (get_repo_docs env repo_url) =
     [(repo_url,
       [(''include_patterns'',
           JArray [JString ''*.md'', JString ''*.mdx'', JString ''*.txt'', JString ''LICENSE*'',
                   JString ''README*'']),
        (''max_file_size'', JNumber 51200)])] \<and>
   map (\<lambda>call. map_of (snd call) ''exclude_patterns'') (ingest_calls (get_repo_docs env repo_url)) =
     [None]"
  by (simp add: get_repo_docs_def get_repo_docs_options_def string_array_def)

section \<open>Validation of the language\<close>

text \<open>
  C7: a call of \<^verbatim>\<open>analyze_code_files\<close> whose \<^verbatim>\<open>language\<close> argument is not
  one of the seven enumerated strings (a different string such as \<^verbatim>\<open>ruby\<close>, a
  value of another type, or no value) is rejected by the schema with the
  invalid-parameters failure, and the collaborator is not called.
\<close>

theorem analyze_code_files_rejects_unknown_language:
  assumes "map_of props ''language'' \<notin> (\<lambda>s. Some (JString s)) `
             {''python'', ''javascript'', ''typescript'', ''go'', ''rust'', ''java'', ''csharp''}"
  shows "call_tool env ''analyze_code_files'' (JObject props) = InvalidParams \<and>
         collaborator_calls (call_tool env ''analyze_code_files'' (JObject props)) = []"
  using z_enum_language_outside [OF assms]
  by (simp add: call_tool_def analyze_code_files_tool_def collaborator_calls_def
      split: option.splits)

theorem analyze_code_files_rejects_unknown_language_witness:
  "map_of [(''repo_url'', JString ''https://github.com/u/r''), (''language'', JString ''ruby'')]
       ''language'' \<notin> (\<lambda>s. Some (JString s)) `
       {''python'', ''javascript'', ''typescript'', ''go'', ''rust'', ''java'', ''csharp''} \<and>
   call_tool (env_returning (''summary'', ''tree'', ''content'') ''2024-01-01T00:00:00.000Z'')
       ''analyze_code_files''
       (JObject [(''repo_url'', JString ''https://github.com/u/r''),
                 (''language'', JString ''ruby'')]) = InvalidParams \<and>
   collaborator_calls
     (call_tool (env_returning (''summary'', ''tree'', ''content'') ''2024-01-01T00:00:00.000Z'')
        ''analyze_code_files''
        (JObject [(''repo_url'', JString ''https://github.com/u/r''),
                  (''language'', JString ''ruby'')])) = []"
proof -
  have outside:
    "map_of [(''repo_url'', JString ''https://github.com/u/r''), (''language'', JString ''ruby'')]
         ''language'' \<notin> (\<lambda>s. Some (JString s)) `
         {''python'', ''javascript'', ''typescript'', ''go'', ''rust'', ''java'', ''csharp''}"
    by simp
  from outside analyze_code_files_rejects_unknown_language
    [OF outside,
     where env = "env_returning (''summary'', ''tree'', ''content'') ''2024-01-01T00:00:00.000Z''"]
  show ?thesis by (simp add: collaborator_calls_def)
qed

section \<open>Success replies\<close>

text \<open>
  C9: when the collaborator returns \<open>(summary, tree, content)\<close> to
  \<^verbatim>\<open>ingest_github_repo\<close>, the reply is the JSON text of an object with these three
  strings and a \<^verbatim>\<open>metadata\<close> object holding the repository reference of the call,
  the clock reading taken when the reply is built, and, under
  \<^verbatim>\<open>options_used\<close>, the very option set that was passed to the collaborator.
\<close>

theorem ingest_github_repo_success_reply:
  assumes "ingest env repo_url
             (ingest_github_repo_options include_patterns exclude_patterns max_file_size) =
           Inr (summary, tree, content)"
  shows "ingest_calls
           (ingest_github_repo env repo_url include_patterns exclude_patterns max_file_size) =
           [(repo_url, ingest_github_repo_options include_patterns exclude_patterns max_file_size)] \<and>
         outcome
           (ingest_github_repo env repo_url include_patterns exclude_patterns max_file_size) =
           Inr (ToolResult [TextItem (JSON_stringify
                  (JObject [(''summary'', JString summary),
                            (''tree'', JString tree),
                            (''content'', JString content),
                            (''metadata'', JObject
                               [(''repo_url'', JString repo_url),
                                (''timestamp'', JString (now_toISOString env)),
                                (''options_used'',
                                   JObject (ingest_github_repo_options include_patterns
                                              exclude_patterns max_file_size))])]))])"
  using assms
  by (simp add: ingest_github_repo_calls ingest_github_repo_returned
      ingest_github_repo_success_def text_result_def)

theorem ingest_github_repo_success_reply_witness:
  "ingest (env_returning (''2 files'', ''src/index.ts'', ''import x'') ''2024-01-01T00:00:00.000Z'')
      ''https://github.com/u/r'' (ingest_github_repo_options None (Some [''*.log'']) (Some 2048)) =
     Inr (''2 files'', ''src/index.ts'', ''import x'') \<and>
   ingest_calls
     (ingest_github_repo
        (env_returning (''2 files'', ''src/index.ts'', ''import x'') ''2024-01-01T00:00:00.000Z'')
        ''https://github.com/u/r'' None (Some [''*.log'']) (Some 2048)) =
     [(''https://github.com/u/r'',
       [(''exclude_patterns'', JArray [JString ''*.log'']), (''max_file_size'', JNumber 2048)])] \<and>
   outcome
     (ingest_github_repo
        (env_returning (''2 files'', ''src/index.ts'', ''import x'') ''2024-01-01T00:00:00.000Z'')
        ''https://github.com/u/r'' None (Some [''*.log'']) (Some 2048)) =
     Inr (ToolResult [TextItem (JSON_stringify
            (JObject [(''summary'', JString ''2 files''),
                      (''tree'', JString ''src/index.ts''),
                      (''content'', JString ''import x''),
                      (''metadata'', JObject
                         [(''repo_url'', JString ''https://github.com/u/r''),
                          (''timestamp'', JString ''2024-01-01T00:00:00.000Z''),
                          (''options_used'', JObject
                             [(''exclude_patterns'', JArray [JString ''*.log'']),
                              (''max_file_size'', JNumber 2048)])])]))])"
proof -
  have returned:
    "ingest (env_returning (''2 files'', ''src/index.ts'', ''import x'') ''2024-01-01T00:00:00.000Z'')
        ''https://github.com/u/r'' (ingest_github_repo_options None (Some [''*.log'']) (Some 2048)) =
       Inr (''2 files'', ''src/index.ts'', ''import x'')"
    by (simp add: env_returning_simps)
  from returned ingest_github_repo_success_reply [OF returned]
  show ?thesis
    by (simp add: env_returning_simps ingest_github_repo_options_def string_array_def)
qed

section \<open>Replies that do not depend on the time of the call\<close>

text \<open>
  C10: for \<^verbatim>\<open>get_repo_structure\<close>, \<^verbatim>\<open>analyze_code_files\<close> and
  \<^verbatim>\<open>get_repo_docs\<close>, two runs with the same arguments in which the collaborator
  gives the same outcome (the same result or the same error) are equal: the same reply
  text and the same collaborator call, whatever the clocks of the two environments read.
\<close>

theorem replies_independent_of_clock:
  "(ingest env1 repo_url get_repo_structure_options = ingest env2 repo_url get_repo_structure_options
      \<longrightarrow> get_repo_structure env1 repo_url = get_repo_structure env2 repo_url) \<and>
   (ingest env1 repo_url (analyze_code_files_options language) =
      ingest env2 repo_url (analyze_code_files_options language)
      \<longrightarrow> analyze_code_files env1 repo_url language = analyze_code_files env2 repo_url language) \<and>
   (ingest env1 repo_url get_repo_docs_options = ingest env2 repo_url get_repo_docs_options
      \<longrightarrow> get_repo_docs env1 repo_url = get_repo_docs env2 repo_url)"
  by (simp add: get_repo_structure_def analyze_code_files_def get_repo_docs_def)

theorem replies_independent_of_clock_witness:
  "ingest (env_returning (''2 files'', ''src/index.ts'', ''import x'') ''2024-01-01T00:00:00.000Z'')
      ''https://github.com/u/r'' get_repo_structure_options =
   ingest (env_returning (''2 files'', ''src/index.ts'', ''import x'') ''2025-06-30T12:00:00.000Z'')
      ''https://github.com/u/r'' get_repo_structure_options \<and>
   ingest (env_returning (''2 files'', ''src/index.ts'', ''import x'') ''2024-01-01T00:00:00.000Z'')
      ''https://github.com/u/r'' (analyze_code_files_options Typescript) =
   ingest (env_returning (''2 files'', ''src/index.ts'', ''import x'') ''2025-06-30T12:00:00.000Z'')
      ''https://github.com/u/r'' (analyze_code_files_options Typescript) \<and>
   ingest (env_returning (''2 files'', ''src/index.ts'', ''import x'') ''2024-01-01T00:00:00.000Z'')
      ''https://github.com/u/r'' get_repo_docs_options =
   ingest (env_returning (''2 files'', ''src/index.ts'', ''import x'') ''2025-06-30T12:00:00.000Z'')
      ''https://github.com/u/r'' get_repo_docs_options \<and>
   get_repo_structure
     (env_returning (''2 files'', ''src/index.ts'', ''import x'') ''2024-01-01T00:00:00.000Z'')
     ''https://github.com/u/r'' =
   get_repo_structure
     (env_returning (''2 files'', ''src/index.ts'', ''import x'') ''2025-06-30T12:00:00.000Z'')
     ''https://github.com/u/r'' \<and>
   analyze_code_files
     (env_returning (''2 files'', ''src/index.ts'', ''import x'') ''2024-01-01T00:00:00.000Z'')
     ''https://github.com/u/r'' Typescript =
   analyze_code_files
     (env_returning (''2 files'', ''src/index.ts'', ''import x'') ''2025-06-30T12:00:00.000Z'')
     ''https://github.com/u/r'' Typescript \<and>
   get_repo_docs
     (env_returning (''2 files'', ''src/index.ts'', ''import x'') ''2024-01-01T00:00:00.000Z'')
     ''https://github.com/u/r'' =
   get_repo_docs
     (env_returning (''2 files'', ''src/index.ts'', ''import x'') ''2025-06-30T12:00:00.000Z'')
     ''https://github.com/u/r''"
  using replies_independent_of_clock
    [where ?env1.0 = "env_returning (''2 files'', ''src/index.ts'', ''import x'')
                        ''2024-01-01T00:00:00.000Z''"
       and ?env2.0 = "env_returning (''2 files'', ''src/index.ts'', ''import x'')
                        ''2025-06-30T12:00:00.000Z''"
       and repo_url = "''https://github.com/u/r''" and language = Typescript]
  by (simp add: env_returning_simps)


end
